theory Spec2Isabelle
  imports Complex_Main "HOL-Library.Word" "HOL-Library.Multiset"
begin

section \<open>JavaScript values used by the route handlers\<close>

text \<open>
  A JavaScript string is a sequence of UTF-16 code units; \<open>s.length\<close> counts them and
  \<open>s.trim()\<close> strips the code units of the ECMAScript classes WhiteSpace and
  LineTerminator from both ends. \<open>str\<close> reads an ASCII literal of the source.
\<close>

type_synonym jsstring = "16 word list"

definition str :: "string \<Rightarrow> jsstring" where
  "str s = map of_char s"

definition is_space :: "16 word \<Rightarrow> bool" where
  "is_space c \<longleftrightarrow>
     c = 0x0009 \<or> c = 0x000A \<or> c = 0x000B \<or> c = 0x000C \<or> c = 0x000D \<or> c = 0x0020 \<or>
     c = 0x00A0 \<or> c = 0x1680 \<or> (0x2000 \<le> c \<and> c \<le> 0x200A) \<or> c = 0x2028 \<or> c = 0x2029 \<or>
     c = 0x202F \<or> c = 0x205F \<or> c = 0x3000 \<or> c = 0xFEFF"

definition trim :: "jsstring \<Rightarrow> jsstring" where
  "trim s = rev (dropWhile is_space (rev (dropWhile is_space s)))"

text \<open>
  A JavaScript number is an IEEE double: NaN, one of the two infinities, or a finite
  value. The handlers only compare numbers and store them, and comparison of doubles is
  exact, so a finite double is modelled by the real number it denotes. Every comparison
  with NaN is false.
\<close>

datatype jsnum = NaN | NegInf | Fin real | PosInf

fun num_less :: "jsnum \<Rightarrow> jsnum \<Rightarrow> bool" where
  "num_less NaN _ = False"
| "num_less _ NaN = False"
| "num_less NegInf NegInf = False"
| "num_less NegInf _ = True"
| "num_less (Fin a) (Fin b) = (a < b)"
| "num_less (Fin a) PosInf = True"
| "num_less (Fin a) NegInf = False"
| "num_less PosInf _ = False"

definition num_greater :: "jsnum \<Rightarrow> jsnum \<Rightarrow> bool" where
  "num_greater a b = num_less b a"

definition isNaN :: "jsnum \<Rightarrow> bool" where
  "isNaN n \<longleftrightarrow> n = NaN"

text \<open>
  The JSON values a request body carries in its \<open>lat\<close> and \<open>lng\<close> fields
  (\<open>JUndefined\<close> for an absent field). Arrays and objects are outside the model.
\<close>

datatype jsval = JUndefined | JNull | JBool bool | JNum jsnum | JStr jsstring

text \<open>
  \<open>parseFloat(v)\<close> converts \<open>v\<close> to a string and reads the longest numeric prefix.
  A number printed and read back is the same number; \<open>undefined\<close>, \<open>null\<close>,
  \<open>true\<close> and \<open>false\<close> print as words that are no number. How a string is read
  (decimal syntax, rounding to a double) is the parameter \<open>pf\<close>.
\<close>

fun parseFloat :: "(jsstring \<Rightarrow> jsnum) \<Rightarrow> jsval \<Rightarrow> jsnum" where
  "parseFloat pf (JNum n) = n"
| "parseFloat pf (JStr s) = pf s"
| "parseFloat pf JUndefined = NaN"
| "parseFloat pf JNull = NaN"
| "parseFloat pf (JBool b) = NaN"

section \<open>Vehicle service (backend/routes/vehicle.js)\<close>

type_synonym oid = nat
type_synonym time = int

datatype message =
    Lit string
  | InvalidLatitude jsnum
  | InvalidLongitude jsnum
  | AlreadyExists jsstring
  | NotFoundNamed jsstring

datatype validation = Valid | Invalid message

text \<open>\<open>validateCoordinates\<close> of routes/vehicle.js, lines 5 to 19.\<close>

fun validateCoordinates :: "jsval \<Rightarrow> jsval \<Rightarrow> validation" where
  "validateCoordinates (JNum lat) (JNum lng) =
     (if num_less lat (Fin (- 90)) \<or> num_greater lat (Fin 90) then Invalid (InvalidLatitude lat)
      else if num_less lng (Fin (- 180)) \<or> num_greater lng (Fin 180)
        then Invalid (InvalidLongitude lng)
      else if isNaN lat \<or> isNaN lng then Invalid (Lit ''Coordinates cannot be NaN'')
      else Valid)"
| "validateCoordinates _ _ = Invalid (Lit ''Coordinates must be numbers'')"

text \<open>
  \<open>validateCoordinates\<close> of the simulator script, which has no type test and checks NaN
  first. The simulator passes it results of \<open>parseFloat\<close> only, so it is modelled on
  numbers; its result carries no message.
\<close>

definition sim_validateCoordinates :: "jsnum \<Rightarrow> jsnum \<Rightarrow> bool" where
  "sim_validateCoordinates lat lng =
     (if isNaN lat \<or> isNaN lng then False
      else if num_less lat (Fin (- 90)) \<or> num_greater lat (Fin 90) then False
      else if num_less lng (Fin (- 180)) \<or> num_greater lng (Fin 180) then False
      else True)"

text \<open>The Vehicle schema (models/vehicle.js): a document and its history entries.\<close>

record location =
  loc_lat :: jsnum
  loc_lng :: jsnum
  timestamp :: time

record vehicle =
  vid :: oid
  name :: jsstring
  lat :: jsnum
  lng :: jsnum
  lastUpdated :: time
  locationHistory :: "location list"
  createdAt :: time
  updatedAt :: time

text \<open>
  The collection, in its natural (insertion) order. A failure of the database itself,
  which the catch of each handler answers with 500, is outside the model.
\<close>

type_synonym store = "vehicle list"

text \<open>
  The body of a create or update request. \<open>req_name\<close> is \<open>None\<close> for an absent field
  and \<open>Some s\<close> for a JSON string; a name of another JSON type is outside the model.
  \<open>req_lastUpdated\<close> is \<open>None\<close> when the field is absent or falsy (the handler
  tests it with \<open>lastUpdated ? \<dots> : \<dots>\<close>) and \<open>Some t\<close> when it is a truthy value
  that \<open>new Date\<close> reads as the instant \<open>t\<close>, such as the ISO date string the
  simulator sends; a truthy value that is no date is outside the model.
\<close>

record body =
  req_name :: "jsstring option"
  req_lat :: jsval
  req_lng :: jsval
  req_lastUpdated :: "time option"

text \<open>
  What a request takes from its environment: the reading of strings by \<open>parseFloat\<close>,
  the identifier the driver gives a new document, the clock at each \<open>new Date()\<close>
  of the handler and at the store's own time stamping, and whether the driver applies
  the setters of the schema to the values of a query filter (see \<open>filter_name\<close>).
\<close>

record env =
  parse_string :: "jsstring \<Rightarrow> jsnum"
  new_id :: oid
  now_lastUpdated :: time
  now_timestamp :: time
  now_save :: time
  setters_on_query :: bool

text \<open>The object the list handler builds for each vehicle (lines 33 to 45).\<close>

record listed =
  l_id :: oid
  l_name :: jsstring
  l_lat :: jsnum
  l_lng :: jsnum
  l_latitude :: jsnum
  l_longitude :: jsnum
  l_lastActive :: time
  l_lastUpdated :: time
  l_locationHistory :: "location list"
  l_createdAt :: time
  l_updatedAt :: time

datatype payload =
    Error message
  | Listing "listed list"
  | Success string vehicle

datatype response = Response nat payload

text \<open>\<open>!name\<close>: an absent name and the empty string are falsy.\<close>

definition falsy :: "jsstring option \<Rightarrow> bool" where
  "falsy n \<longleftrightarrow> (case n of None \<Rightarrow> True | Some s \<Rightarrow> s = [])"

text \<open>
  The schema declares \<open>name\<close> with \<open>trim: true\<close>. The object-document mapper
  casts the value of a query filter by the schema; its later versions run the setters of
  the path on it, so that the name is trimmed, its earlier ones compare the value as it
  is given. The version in use is not among the sources, hence the flag.
\<close>

definition filter_name :: "env \<Rightarrow> jsstring \<Rightarrow> jsstring" where
  "filter_name e n = (if setters_on_query e then trim n else n)"

text \<open>
  \<open>Vehicle.findOne({ name: n })\<close> after the cast: the first document whose name is
  exactly \<open>n\<close>.
\<close>

definition findOne :: "jsstring \<Rightarrow> store \<Rightarrow> vehicle option" where
  "findOne n s = find (\<lambda>v. name v = n) s"

text \<open>
  \<open>Vehicle.find().sort({ lastUpdated: -1 })\<close>: all documents, latest first. The
  database fixes no order among documents of equal \<open>lastUpdated\<close>; the model keeps
  them in natural order.
\<close>

definition find_sorted :: "store \<Rightarrow> vehicle list" where
  "find_sorted s = sort_key (\<lambda>v. - lastUpdated v) s"

definition transform :: "(jsstring \<Rightarrow> jsnum) \<Rightarrow> vehicle \<Rightarrow> listed option" where
  "transform pf v =
     (let la = parseFloat pf (JNum (lat v)); lo = parseFloat pf (JNum (lng v)) in
      case validateCoordinates (JNum la) (JNum lo) of
        Invalid m \<Rightarrow> None
      | Valid \<Rightarrow> Some \<lparr>l_id = vid v, l_name = name v, l_lat = la, l_lng = lo,
          l_latitude = la, l_longitude = lo, l_lastActive = lastUpdated v,
          l_lastUpdated = lastUpdated v, l_locationHistory = locationHistory v,
          l_createdAt = createdAt v, l_updatedAt = updatedAt v\<rparr>)"

text \<open>GET /: map every document, then filter out the nulls.\<close>

definition list_vehicles :: "env \<Rightarrow> store \<Rightarrow> response" where
  "list_vehicles e s =
     Response 200 (Listing (List.map_filter (transform (parse_string e)) (find_sorted s)))"

text \<open>
  \<open>newVehicle.save()\<close>: the schema requires \<open>name\<close>, and a required string must not
  be empty; a document that fails is rejected (the handler's catch answers 500).
  The store stamps \<open>createdAt\<close> and \<open>updatedAt\<close> and appends the document.
\<close>

definition save_new :: "time \<Rightarrow> vehicle \<Rightarrow> store \<Rightarrow> (vehicle \<times> store) option" where
  "save_new t v s =
     (if name v = [] then None
      else let saved = v\<lparr>createdAt := t, updatedAt := t\<rparr> in Some (saved, s @ [saved]))"

text \<open>\<open>vehicle.save()\<close> on a loaded document: the document of that id is replaced.\<close>

definition save :: "vehicle \<Rightarrow> store \<Rightarrow> store" where
  "save v s = map (\<lambda>w. if vid w = vid v then v else w) s"

text \<open>POST /: create a vehicle (lines 56 to 90).\<close>

definition create :: "env \<Rightarrow> body \<Rightarrow> store \<Rightarrow> response \<times> store" where
  "create e b s =
     (if falsy (req_name b) \<or> req_lat b = JUndefined \<or> req_lng b = JUndefined then
        (Response 400 (Error (Lit ''Vehicle name, latitude, and longitude are required'')), s)
      else
        let nm = the (req_name b);
            parsedLat = parseFloat (parse_string e) (req_lat b);
            parsedLng = parseFloat (parse_string e) (req_lng b)
        in case validateCoordinates (JNum parsedLat) (JNum parsedLng) of
             Invalid m \<Rightarrow> (Response 400 (Error m), s)
           | Valid \<Rightarrow>
               (case findOne (filter_name e (trim nm)) s of
                  Some existingVehicle \<Rightarrow> (Response 400 (Error (AlreadyExists nm)), s)
                | None \<Rightarrow>
                    let newVehicle = \<lparr>vid = new_id e, name = trim nm, lat = parsedLat,
                          lng = parsedLng, lastUpdated = now_lastUpdated e,
                          locationHistory = [\<lparr>loc_lat = parsedLat, loc_lng = parsedLng,
                             timestamp = now_timestamp e\<rparr>],
                          createdAt = now_save e, updatedAt = now_save e\<rparr>
                    in (case save_new (now_save e) newVehicle s of
                          None \<Rightarrow> (Response 500 (Error (Lit ''Error creating vehicle'')), s)
                        | Some (savedVehicle, s') \<Rightarrow>
                            (Response 201 (Success ''Vehicle added successfully'' savedVehicle),
                             s'))))"

text \<open>\<open>xs.slice(-n)\<close>: the last \<open>n\<close> elements, all of them when there are fewer.\<close>

definition slice_last :: "nat \<Rightarrow> 'a list \<Rightarrow> 'a list" where
  "slice_last n xs = drop (length xs - n) xs"

text \<open>POST /update: move a vehicle (lines 93 to 129).\<close>

definition update :: "env \<Rightarrow> body \<Rightarrow> store \<Rightarrow> response \<times> store" where
  "update e b s =
     (if falsy (req_name b) \<or> req_lat b = JUndefined \<or> req_lng b = JUndefined then
        (Response 400 (Error (Lit ''Name, lat, and lng are required'')), s)
      else
        let nm = the (req_name b);
            parsedLat = parseFloat (parse_string e) (req_lat b);
            parsedLng = parseFloat (parse_string e) (req_lng b)
        in case validateCoordinates (JNum parsedLat) (JNum parsedLng) of
             Invalid m \<Rightarrow> (Response 400 (Error m), s)
           | Valid \<Rightarrow>
               (case findOne (filter_name e nm) s of
                  None \<Rightarrow> (Response 404 (Error (NotFoundNamed nm)), s)
                | Some vehicle \<Rightarrow>
                    let moved = vehicle\<lparr>lat := parsedLat, lng := parsedLng,
                          lastUpdated := (case req_lastUpdated b of
                             Some t \<Rightarrow> t | None \<Rightarrow> now_lastUpdated e)\<rparr>;
                        pushed = locationHistory moved @
                          [\<lparr>loc_lat = parsedLat, loc_lng = parsedLng,
                            timestamp = now_timestamp e\<rparr>];
                        history = (if length pushed > 100 then slice_last 100 pushed
                                   else pushed);
                        saved = moved\<lparr>locationHistory := history, updatedAt := now_save e\<rparr>
                    in (Response 200 (Success ''Vehicle updated successfully'' saved),
                        save saved s)))"

section \<open>User service (backend/routes/user.js)\<close>

text \<open>
  Modelled from the spec: the User schema (models/user.js is not among the sources). A
  user has an identifier, a \<open>username\<close>, an \<open>email\<close>, the password hash (the handlers
  call the field \<open>password\<close>) and the store's two time stamps; saving a user adds
  the document and checks nothing more than the handler did.
\<close>

record user =
  uid :: oid
  username :: jsstring
  email :: jsstring
  password :: jsstring
  user_createdAt :: time
  user_updatedAt :: time

type_synonym users = "user list"

text \<open>
  Request bodies: \<open>None\<close> for an absent field, \<open>Some s\<close> for a JSON string.
\<close>

record register_body =
  reg_username :: "jsstring option"
  reg_email :: "jsstring option"
  reg_password :: "jsstring option"


text \<open>
  The bcrypt library is a parameter: \<open>bcrypt_hash e p rounds\<close> is the salted hash the
  library returns for this request, \<open>bcrypt_compare e p h\<close> its verdict on a password
  and a stored hash.
\<close>

record uenv =
  user_id :: oid
  bcrypt_hash :: "jsstring \<Rightarrow> nat \<Rightarrow> jsstring"
  bcrypt_compare :: "jsstring \<Rightarrow> jsstring \<Rightarrow> bool"
  user_now :: time

text \<open>The JSON documents the user routes answer with.\<close>

datatype json =
    JBoolean bool
  | JText jsstring
  | JObjectId oid
  | JObject "(string \<times> json) list"

datatype reply = Reply nat json


definition failure :: "string \<Rightarrow> json" where
  "failure m = JObject [(''success'', JBoolean False), (''message'', JText (str m))]"

text \<open>\<open>User.findOne({ $or: [{ username: a }, { email: b }] })\<close>: the first match.\<close>

definition findOne_or :: "jsstring \<Rightarrow> jsstring \<Rightarrow> users \<Rightarrow> user option" where
  "findOne_or a b s = find (\<lambda>u. username u = a \<or> email u = b) s"

text \<open>POST /register (lines 8 to 90).\<close>

definition register :: "uenv \<Rightarrow> register_body \<Rightarrow> users \<Rightarrow> reply \<times> users" where
  "register e b s =
     (if falsy (reg_username b) \<or> falsy (reg_email b) \<or> falsy (reg_password b) then
        (Reply 400 (failure ''Please provide username, email, and password''), s)
      else
        let un = the (reg_username b); em = the (reg_email b); pw = the (reg_password b) in
        if length pw < 6 then
          (Reply 400 (failure ''Password must be at least 6 characters long''), s)
        else if length un < 3 then
          (Reply 400 (failure ''Username must be at least 3 characters long''), s)
        else
          (case findOne_or un em s of
             Some existingUser \<Rightarrow>
               (Reply 400 (failure (if username existingUser = un
                  then ''Username already exists'' else ''Email already exists'')), s)
           | None \<Rightarrow>
               let saltRounds = 12;
                   hashedPassword = bcrypt_hash e pw saltRounds;
                   user = \<lparr>uid = user_id e, username = un, email = em,
                     password = hashedPassword, user_createdAt = user_now e,
                     user_updatedAt = user_now e\<rparr>
               in (Reply 201 (JObject [(''success'', JBoolean True),
                     (''message'', JText (str ''User registered successfully'')),
                     (''user'', JObject [(''_id'', JObjectId (uid user)),
                        (''username'', JText (username user)),
                        (''email'', JText (email user))])]),
                   s @ [user])))"



section \<open>Notions of the specification\<close>

text \<open>A number lies in the closed interval from \<open>lo\<close> to \<open>hi\<close>.\<close>

definition in_interval :: "real \<Rightarrow> real \<Rightarrow> jsnum \<Rightarrow> bool" where
  "in_interval lo hi n = (case n of Fin x \<Rightarrow> lo \<le> x \<and> x \<le> hi | _ \<Rightarrow> False)"

text \<open>
  The invariant of a vehicle record as the data model of the specification words it:
  latitude and longitude in range, neither of them NaN, at most 100 history entries.
\<close>

definition vehicle_inv :: "vehicle \<Rightarrow> bool" where
  "vehicle_inv v \<longleftrightarrow>
     in_interval (- 90) 90 (lat v) \<and> in_interval (- 180) 180 (lng v) \<and>
     \<not> isNaN (lat v) \<and> \<not> isNaN (lng v) \<and> length (locationHistory v) \<le> 100"

text \<open>The stored coordinates of a vehicle pass the validation predicate.\<close>

definition stored_valid :: "vehicle \<Rightarrow> bool" where
  "stored_valid v \<longleftrightarrow> validateCoordinates (JNum (lat v)) (JNum (lng v)) = Valid"

text \<open>The coordinates of a request body, read by \<open>parseFloat\<close>, pass validation.\<close>

definition coords_pass :: "env \<Rightarrow> body \<Rightarrow> bool" where
  "coords_pass e b \<longleftrightarrow>
     validateCoordinates (JNum (parseFloat (parse_string e) (req_lat b)))
       (JNum (parseFloat (parse_string e) (req_lng b))) = Valid"




text \<open>The public view of a user: identifier, username and email.\<close>

definition public_view :: "user \<Rightarrow> json" where
  "public_view u = JObject [(''_id'', JObjectId (uid u)), (''username'', JText (username u)),
     (''email'', JText (email u))]"


section \<open>Example data\<close>

text \<open>
  A request environment, some stored vehicles (\<open>bus\<close> has a full history of 100
  entries, \<open>wreck\<close> has coordinates that fail validation, \<open>car9\<close> is what
  \<open>env0\<close> creates from \<open>spaced_body\<close>, \<open>moved_car1\<close> is \<open>car1\<close> after
  \<open>move_body\<close> under \<open>env0\<close>), some request bodies, and the same for the user
  service, with a stand-in for the hash function.
\<close>

definition env0 :: env where
  "env0 = \<lparr>parse_string = (\<lambda>s. NaN), new_id = 2, now_lastUpdated = 5000,
     now_timestamp = 5001, now_save = 5002, setters_on_query = True\<rparr>"

definition car1 :: vehicle where
  "car1 = \<lparr>vid = 1, name = str ''Car-1'', lat = Fin 23.81, lng = Fin 90.41,
     lastUpdated = 1000,
     locationHistory = [\<lparr>loc_lat = Fin 23.81, loc_lng = Fin 90.41, timestamp = 1000\<rparr>],
     createdAt = 1000, updatedAt = 1000\<rparr>"

definition move_body :: "string \<Rightarrow> body" where
  "move_body n = \<lparr>req_name = Some (str n), req_lat = JNum (Fin 10), req_lng = JNum (Fin 20),
     req_lastUpdated = None\<rparr>"

definition bus :: vehicle where
  "bus = \<lparr>vid = 3, name = str ''Bus'', lat = Fin 0, lng = Fin 0, lastUpdated = 99,
     locationHistory =
       map (\<lambda>i. \<lparr>loc_lat = Fin 0, loc_lng = Fin 0, timestamp = int i\<rparr>) [0..<100],
     createdAt = 0, updatedAt = 99\<rparr>"

definition add_body :: "string \<Rightarrow> body" where
  "add_body n = \<lparr>req_name = Some (str n), req_lat = JNum (Fin 23.81),
     req_lng = JNum (Fin 90.41), req_lastUpdated = None\<rparr>"

definition bad_lat_body :: "string \<Rightarrow> body" where
  "bad_lat_body n = \<lparr>req_name = Some (str n), req_lat = JNum (Fin 91), req_lng = JNum (Fin 0),
     req_lastUpdated = None\<rparr>"

definition spaced_body :: "string \<Rightarrow> body" where
  "spaced_body n = \<lparr>req_name = Some (str n), req_lat = JNum (Fin 1), req_lng = JNum (Fin 2),
     req_lastUpdated = None\<rparr>"

definition wreck :: vehicle where
  "wreck = \<lparr>vid = 4, name = str ''Wreck'', lat = Fin 123, lng = NaN, lastUpdated = 2000,
     locationHistory = [], createdAt = 0, updatedAt = 2000\<rparr>"

definition van :: vehicle where
  "van = \<lparr>vid = 5, name = str ''Van'', lat = Fin (- 90), lng = Fin 180, lastUpdated = 3000,
     locationHistory = [], createdAt = 0, updatedAt = 3000\<rparr>"

definition car9 :: vehicle where
  "car9 = \<lparr>vid = 2, name = str ''Car-9'', lat = Fin 1, lng = Fin 2, lastUpdated = 5000,
     locationHistory = [\<lparr>loc_lat = Fin 1, loc_lng = Fin 2, timestamp = 5001\<rparr>],
     createdAt = 5002, updatedAt = 5002\<rparr>"

definition moved_car1 :: vehicle where
  "moved_car1 = \<lparr>vid = 1, name = str ''Car-1'', lat = Fin 10, lng = Fin 20,
     lastUpdated = 5000,
     locationHistory = [\<lparr>loc_lat = Fin 23.81, loc_lng = Fin 90.41, timestamp = 1000\<rparr>,
       \<lparr>loc_lat = Fin 10, loc_lng = Fin 20, timestamp = 5001\<rparr>],
     createdAt = 1000, updatedAt = 5002\<rparr>"

definition uenv0 :: uenv where
  "uenv0 = \<lparr>user_id = 11, bcrypt_hash = (\<lambda>p rounds. str ''$2a$12$'' @ rev p),
     bcrypt_compare = (\<lambda>p h. h = str ''$2a$12$'' @ rev p), user_now = 7000\<rparr>"

definition alice :: user where
  "alice = \<lparr>uid = 10, username = str ''alice'', email = str ''alice@example.org'',
     password = str ''$2a$12$'' @ rev (str ''secret1''), user_createdAt = 6000,
     user_updatedAt = 6000\<rparr>"

definition reg_body :: "string \<Rightarrow> string \<Rightarrow> string \<Rightarrow> register_body" where
  "reg_body u m p = \<lparr>reg_username = Some (str u), reg_email = Some (str m),
     reg_password = Some (str p)\<rparr>"


section \<open>Facts about the helpers\<close>

lemma validate_Valid_iff:
  "validateCoordinates (JNum a) (JNum b) = Valid \<longleftrightarrow>
     in_interval (- 90) 90 a \<and> in_interval (- 180) 180 b"
  by (cases a; cases b) (auto simp: in_interval_def num_greater_def isNaN_def)

lemma coords_pass_iff:
  "coords_pass e b \<longleftrightarrow>
     in_interval (- 90) 90 (parseFloat (parse_string e) (req_lat b)) \<and>
     in_interval (- 180) 180 (parseFloat (parse_string e) (req_lng b))"
  by (simp only: coords_pass_def validate_Valid_iff)

lemma coords_pass_defined:
  "coords_pass e b \<Longrightarrow> req_lat b \<noteq> JUndefined \<and> req_lng b \<noteq> JUndefined"
  by (auto simp: coords_pass_iff in_interval_def)

lemma trim_Nil: "trim [] = []"
  by (simp add: trim_def)

lemma dropWhile_trim: "dropWhile is_space (trim n) = trim n"
proof (cases "dropWhile is_space n")
  case Nil
  then show ?thesis by (simp only: trim_def rev.simps dropWhile.simps)
next
  case (Cons x xs)
  then have x: "\<not> is_space x"
    using hd_dropWhile [of is_space n] by (metis list.sel(1) list.simps(3))
  have "\<exists>ys. dropWhile is_space (rev xs @ [x]) = ys @ [x]"
    using x by (simp add: dropWhile_append)
  then obtain ys where "dropWhile is_space (rev xs @ [x]) = ys @ [x]" ..
  then show ?thesis
    using x by (simp add: trim_def Cons)
qed

lemma trim_idem: "trim (trim n) = trim n"
proof -
  have "rev (trim n) = dropWhile is_space (rev (dropWhile is_space n))"
    by (simp add: trim_def)
  then have "dropWhile is_space (rev (trim n)) = rev (trim n)"
    by (simp only: dropWhile_idem)
  then show ?thesis
    by (simp add: trim_def [of "trim n"] dropWhile_trim)
qed

lemma filter_name_trim: "filter_name e (trim n) = trim n"
  by (simp add: filter_name_def trim_idem)

lemma slice_last_length: "length (slice_last n xs) = min n (length xs)"
  by (simp add: slice_last_def)

lemma slice_last_short: "length xs \<le> n \<Longrightarrow> slice_last n xs = xs"
  by (simp add: slice_last_def)

lemma slice_last_snoc: "0 < n \<Longrightarrow> last (slice_last n (xs @ [x])) = x"
  by (simp add: slice_last_def)

lemma slice_last_full: "length xs = n \<Longrightarrow> 0 < n \<Longrightarrow> slice_last n (xs @ [x]) = tl xs @ [x]"
  by (cases xs) (simp_all add: slice_last_def)

lemma capped_history:
  "(if length pushed > 100 then slice_last 100 pushed else pushed) = slice_last 100 pushed"
  by (simp add: slice_last_def)

lemma findOne_None_iff: "findOne n s = None \<longleftrightarrow> (\<forall>v\<in>set s. name v \<noteq> n)"
  by (auto simp: findOne_def find_None_iff)

lemma findOne_Some_name: "findOne n s = Some v \<Longrightarrow> name v = n \<and> v \<in> set s"
  by (auto simp: findOne_def find_Some_iff)

lemma map_vid_save: "map vid (save v s) = map vid s"
  by (induction s) (simp_all add: save_def)

lemma findOne_save:
  "findOne n s = Some v \<Longrightarrow> vid v' = vid v \<Longrightarrow> name v' = n \<Longrightarrow> findOne n (save v' s) = Some v'"
proof (induction s)
  case Nil
  then show ?case by (simp add: findOne_def)
next
  case (Cons w s)
  then show ?case
    by (auto simp: findOne_def save_def split: if_splits)
qed

lemma map_vid_update: "map vid (snd (update e b s)) = map vid s"
  by (simp add: update_def Let_def map_vid_save split: validation.splits option.splits)

lemma update_found:
  assumes "req_name b = Some n" and "n \<noteq> []" and "coords_pass e b"
    and "findOne (filter_name e n) s = Some v"
  shows "update e b s =
     (let la = parseFloat (parse_string e) (req_lat b);
          lo = parseFloat (parse_string e) (req_lng b);
          v' = v\<lparr>lat := la, lng := lo,
            lastUpdated := (case req_lastUpdated b of Some t \<Rightarrow> t | None \<Rightarrow> now_lastUpdated e),
            locationHistory := slice_last 100 (locationHistory v @
              [\<lparr>loc_lat = la, loc_lng = lo, timestamp = now_timestamp e\<rparr>]),
            updatedAt := now_save e\<rparr>
      in (Response 200 (Success ''Vehicle updated successfully'' v'), save v' s))"
proof -
  have "req_lat b \<noteq> JUndefined" "req_lng b \<noteq> JUndefined"
    using assms(3) coords_pass_defined by blast+
  with assms show ?thesis
    by (simp add: update_def falsy_def coords_pass_def Let_def capped_history
        del: validateCoordinates.simps)
qed

lemma update_200_only_if:
  assumes "update e b s = (Response 200 p, s')"
  shows "\<exists>n v. req_name b = Some n \<and> n \<noteq> [] \<and> coords_pass e b \<and>
           findOne (filter_name e n) s = Some v"
  using assms
  by (auto simp: update_def falsy_def coords_pass_def Let_def
      simp del: validateCoordinates.simps
      split: if_splits validation.splits option.splits)

lemma update_error_unchanged:
  "update e b s = (Response st (Error m), s') \<Longrightarrow> s' = s"
  by (auto simp: update_def Let_def split: if_splits validation.splits option.splits)

lemma coords_pass_inv:
  assumes "coords_pass e b"
  shows "in_interval (- 90) 90 (parseFloat (parse_string e) (req_lat b))"
    and "in_interval (- 180) 180 (parseFloat (parse_string e) (req_lng b))"
    and "\<not> isNaN (parseFloat (parse_string e) (req_lat b))"
    and "\<not> isNaN (parseFloat (parse_string e) (req_lng b))"
  using assms by (auto simp: coords_pass_iff in_interval_def isNaN_def)

lemma update_saved:
  assumes "update e b s = (Response 200 (Success m v), s')"
  shows "vehicle_inv v \<and> s' = save v s"
proof -
  obtain n w where h: "req_name b = Some n" "n \<noteq> []" "coords_pass e b"
      "findOne (filter_name e n) s = Some w"
    using update_200_only_if [OF assms] by blast
  from update_found [OF h] assms
  have "s' = save v s" "lat v = parseFloat (parse_string e) (req_lat b)"
    "lng v = parseFloat (parse_string e) (req_lng b)"
    "length (locationHistory v) = min 100 (length (locationHistory w) + 1)"
    by (auto simp: Let_def slice_last_length)
  then show ?thesis
    using coords_pass_inv [OF h(3)] by (simp add: vehicle_inv_def)
qed

section \<open>Update by name\<close>

lemma update_not_found:
  assumes "req_name b = Some n" and "n \<noteq> []" and "coords_pass e b"
    and "findOne (filter_name e n) s = None"
  shows "update e b s = (Response 404 (Error (NotFoundNamed n)), s)"
proof -
  have "req_lat b \<noteq> JUndefined" "req_lng b \<noteq> JUndefined"
    using assms(3) coords_pass_defined by blast+
  with assms show ?thesis
    by (simp add: update_def falsy_def coords_pass_def del: validateCoordinates.simps)
qed

text \<open>
  Claim C1, as amended. An update request that gives a name and whose coordinates pass
  validation, when the lookup by that name finds no stored vehicle, is answered 404 with
  the not-found message, and the store is left as it was. The lookup is by the name
  as the driver casts it, which with the setters of the schema applied is the trimmed
  name; it finds nothing, in particular, when no stored vehicle has the given name and
  none has its trimmed form. Whatever the request, an update leaves the store with
  the same documents (the same identifiers in the same order): it never adds one.
\<close>

theorem update_unknown_name_not_found:
  "(req_name b = Some n \<and> n \<noteq> [] \<and> coords_pass e b \<and>
      findOne (filter_name e n) s = None \<longrightarrow>
      update e b s = (Response 404 (Error (NotFoundNamed n)), s)) \<and>
   (req_name b = Some n \<and> n \<noteq> [] \<and> coords_pass e b \<and>
      findOne n s = None \<and> findOne (trim n) s = None \<longrightarrow>
      update e b s = (Response 404 (Error (NotFoundNamed n)), s)) \<and>
   map vid (snd (update e b s)) = map vid s \<and>
   length (snd (update e b s)) = length s"
proof (intro conjI impI)
  assume "req_name b = Some n \<and> n \<noteq> [] \<and> coords_pass e b \<and>
      findOne (filter_name e n) s = None"
  then show "update e b s = (Response 404 (Error (NotFoundNamed n)), s)"
    by (simp add: update_not_found)
next
  assume h: "req_name b = Some n \<and> n \<noteq> [] \<and> coords_pass e b \<and>
      findOne n s = None \<and> findOne (trim n) s = None"
  then have "findOne (filter_name e n) s = None"
    by (simp add: filter_name_def)
  with h show "update e b s = (Response 404 (Error (NotFoundNamed n)), s)"
    by (simp add: update_not_found)
next
  show "map vid (snd (update e b s)) = map vid s" by (rule map_vid_update)
  then show "length (snd (update e b s)) = length s" by (metis length_map)
qed

text \<open>
  The claim as first stated fails for a name with surrounding whitespace where the
  driver applies the trim setter of the schema to the filter: no stored vehicle is named
  "Car-1 " with its trailing space, yet the update request of that name finds Car-1, is
  answered 200 and overwrites its position.
\<close>

theorem update_unknown_name_not_found_counterexample:
  "findOne (str ''Car-1 '') [car1] = None \<and>
   coords_pass env0 (move_body ''Car-1 '') \<and>
   update env0 (move_body ''Car-1 '') [car1] =
     (Response 200 (Success ''Vehicle updated successfully'' moved_car1), [moved_car1]) \<and>
   Response 200 (Success ''Vehicle updated successfully'' moved_car1) \<noteq>
     Response 404 (Error (NotFoundNamed (str ''Car-1 ''))) \<and>
   [moved_car1] \<noteq> [car1]"
proof -
  have t: "trim (str ''Car-1 '') = str ''Car-1''"
    by (simp add: trim_def str_def is_space_def)
  have n: "req_name (move_body ''Car-1 '') = Some (str ''Car-1 '')" "str ''Car-1 '' \<noteq> []"
    by (simp_all add: move_body_def str_def)
  have c: "coords_pass env0 (move_body ''Car-1 '')"
    by (simp add: coords_pass_iff in_interval_def move_body_def env0_def)
  have f: "findOne (filter_name env0 (str ''Car-1 '')) [car1] = Some car1"
    by (simp add: filter_name_def env0_def t) (simp add: findOne_def car1_def)
  have absent: "findOne (str ''Car-1 '') [car1] = None"
    by (simp add: findOne_def car1_def str_def)
  have run: "update env0 (move_body ''Car-1 '') [car1] =
     (Response 200 (Success ''Vehicle updated successfully'' moved_car1), [moved_car1])"
    by (simp add: update_found [OF n c f] Let_def)
      (simp add: move_body_def env0_def car1_def moved_car1_def slice_last_def save_def)
  have "moved_car1 \<noteq> car1"
    by (simp add: moved_car1_def car1_def)
  with absent c run show ?thesis
    by simp
qed

theorem update_unknown_name_not_found_witness:
  "coords_pass env0 (move_body ''Ghost'') \<and>
   findOne (filter_name env0 (str ''Ghost'')) [car1] = None \<and>
   update env0 (move_body ''Ghost'') [car1] =
     (Response 404 (Error (NotFoundNamed (str ''Ghost''))), [car1])"
  using update_unknown_name_not_found [of "move_body ''Ghost''" "str ''Ghost''" env0 "[car1]"]
  by (simp add: coords_pass_iff in_interval_def findOne_def filter_name_def trim_def
      is_space_def move_body_def car1_def str_def env0_def)

text \<open>
  Claim C2. An update request whose coordinates pass validation and that gives a name
  by which the lookup finds a stored vehicle succeeds: it is answered 200 with the saved
  document, which replaces the found one in the store. The saved document keeps identifier and
  name, has the parsed coordinates as its position, has \<open>lastUpdated\<close> equal to the
  supplied value when there is one and to the clock otherwise, and has as history the
  last 100 entries of the old history followed by the new entry: the new entry is its
  last element, its length is the smaller of 100 and the old length plus one, and
  when the old history had 100 entries exactly the oldest one is dropped.
\<close>

theorem update_existing_vehicle:
  assumes "req_name b = Some n" and "n \<noteq> []" and "coords_pass e b"
    and "findOne (filter_name e n) s = Some v"
  defines "la \<equiv> parseFloat (parse_string e) (req_lat b)"
    and "lo \<equiv> parseFloat (parse_string e) (req_lng b)"
  defines "entry \<equiv> \<lparr>loc_lat = la, loc_lng = lo, timestamp = now_timestamp e\<rparr>"
  shows "\<exists>v'. update e b s =
       (Response 200 (Success ''Vehicle updated successfully'' v'), save v' s) \<and>
     findOne (filter_name e n) (save v' s) = Some v' \<and>
     vid v' = vid v \<and> name v' = name v \<and>
     lat v' = la \<and> lng v' = lo \<and>
     lastUpdated v' = (case req_lastUpdated b of Some t \<Rightarrow> t | None \<Rightarrow> now_lastUpdated e) \<and>
     locationHistory v' = slice_last 100 (locationHistory v @ [entry]) \<and>
     last (locationHistory v') = entry \<and>
     length (locationHistory v') = min 100 (length (locationHistory v) + 1) \<and>
     (length (locationHistory v) < 100 \<longrightarrow> locationHistory v' = locationHistory v @ [entry]) \<and>
     (length (locationHistory v) = 100 \<longrightarrow> locationHistory v' = tl (locationHistory v) @ [entry])"
proof -
  define v' where "v' = v\<lparr>lat := la, lng := lo,
      lastUpdated := (case req_lastUpdated b of Some t \<Rightarrow> t | None \<Rightarrow> now_lastUpdated e),
      locationHistory := slice_last 100 (locationHistory v @ [entry]),
      updatedAt := now_save e\<rparr>"
  have run: "update e b s =
      (Response 200 (Success ''Vehicle updated successfully'' v'), save v' s)"
    using update_found [OF assms(1-4)]
    by (simp add: Let_def v'_def entry_def la_def lo_def)
  have nm: "name v = filter_name e n" using assms(4) findOne_Some_name by blast
  have found: "findOne (filter_name e n) (save v' s) = Some v'"
    by (rule findOne_save [OF assms(4)]) (simp_all add: v'_def nm)
  have hist: "locationHistory v' = slice_last 100 (locationHistory v @ [entry])"
    by (simp add: v'_def)
  have "last (locationHistory v') = entry"
    unfolding hist by (rule slice_last_snoc) simp
  moreover have "length (locationHistory v') = min 100 (length (locationHistory v) + 1)"
    unfolding hist by (simp add: slice_last_length)
  moreover have "length (locationHistory v) < 100 \<longrightarrow>
      locationHistory v' = locationHistory v @ [entry]"
    unfolding hist by (simp add: slice_last_short)
  moreover have "length (locationHistory v) = 100 \<longrightarrow>
      locationHistory v' = tl (locationHistory v) @ [entry]"
    unfolding hist by (simp add: slice_last_full)
  ultimately show ?thesis
    using run found hist by (intro exI [of _ v']) (simp add: v'_def)
qed

theorem update_existing_vehicle_witness:
  "findOne (filter_name env0 (str ''Bus'')) [car1, bus] = Some bus \<and>
   length (locationHistory bus) = 100 \<and>
   (\<exists>v'. update env0 (move_body ''Bus'') [car1, bus] =
       (Response 200 (Success ''Vehicle updated successfully'' v'), [car1, v']) \<and>
     lat v' = Fin 10 \<and> lng v' = Fin 20 \<and> lastUpdated v' = 5000 \<and>
     length (locationHistory v') = 100 \<and>
     hd (locationHistory bus) \<notin> set (locationHistory v') \<and>
     last (locationHistory v') = \<lparr>loc_lat = Fin 10, loc_lng = Fin 20, timestamp = 5001\<rparr>)"
proof -
  let ?b = "move_body ''Bus''"
  let ?la = "parseFloat (parse_string env0) (req_lat ?b)"
  let ?lo = "parseFloat (parse_string env0) (req_lng ?b)"
  let ?entry = "\<lparr>loc_lat = ?la, loc_lng = ?lo, timestamp = now_timestamp env0\<rparr>"
  have "trim (str ''Bus'') = str ''Bus''"
    by (simp add: trim_def str_def is_space_def)
  then have f: "findOne (filter_name env0 (str ''Bus'')) [car1, bus] = Some bus"
    by (simp add: filter_name_def findOne_def car1_def bus_def) (simp add: str_def)
  have c: "coords_pass env0 ?b"
    by (simp add: coords_pass_iff in_interval_def move_body_def env0_def)
  have n: "req_name ?b = Some (str ''Bus'')" "str ''Bus'' \<noteq> []"
    by (simp_all add: move_body_def str_def)
  have l: "length (locationHistory bus) = 100"
    by (simp add: bus_def)
  have ids: "vid car1 \<noteq> vid bus"
    by (simp add: car1_def bus_def)
  have hdv: "hd (locationHistory bus) = \<lparr>loc_lat = Fin 0, loc_lng = Fin 0, timestamp = 0\<rparr>"
    by (simp add: bus_def upt_rec [of 0] del: upt_Suc)
  have old: "hd (locationHistory bus) \<notin> set (tl (locationHistory bus))"
    by (auto simp: bus_def upt_rec [of 0] map_tl [symmetric] simp del: upt_Suc)
  from update_existing_vehicle [OF n c f]
  obtain v' where v': "update env0 ?b [car1, bus] =
       (Response 200 (Success ''Vehicle updated successfully'' v'), save v' [car1, bus])"
     "vid v' = vid bus" "lat v' = ?la" "lng v' = ?lo"
     "lastUpdated v' =
        (case req_lastUpdated ?b of Some t \<Rightarrow> t | None \<Rightarrow> now_lastUpdated env0)"
     "last (locationHistory v') = ?entry"
     "length (locationHistory v') = min 100 (length (locationHistory bus) + 1)"
     "length (locationHistory bus) = 100 \<longrightarrow>
        locationHistory v' = tl (locationHistory bus) @ [?entry]"
    by blast
  have s: "save v' [car1, bus] = [car1, v']"
    using ids v'(2) by (simp add: save_def)
  have gone: "hd (locationHistory bus) \<notin> set (locationHistory v')"
    using v'(8) l old by (simp add: hdv move_body_def env0_def)
  show ?thesis
    using f l v' s gone by (intro conjI exI [of _ v']) (simp_all add: move_body_def env0_def)
qed

section \<open>Coordinate validation\<close>

text \<open>
  Claim C3. The validation predicate of the vehicle routes accepts a pair of values
  exactly when both are finite numbers, the first between -90 and 90 and the second
  between -180 and 180; on numbers this is: latitude in range, longitude in range,
  neither of them NaN. The predicate of the simulator script accepts the same pairs of
  numbers. A pair that is not accepted is rejected with an error message.
\<close>

theorem validateCoordinates_accepts_iff:
  fixes la lo :: jsnum
  shows "(validateCoordinates a b = Valid \<longleftrightarrow>
      (\<exists>x y. a = JNum (Fin x) \<and> b = JNum (Fin y) \<and>
         - 90 \<le> x \<and> x \<le> 90 \<and> - 180 \<le> y \<and> y \<le> 180)) \<and>
   (validateCoordinates (JNum la) (JNum lo) = Valid \<longleftrightarrow>
      (\<exists>x. la = Fin x \<and> - 90 \<le> x \<and> x \<le> 90) \<and>
      (\<exists>y. lo = Fin y \<and> - 180 \<le> y \<and> y \<le> 180) \<and> \<not> isNaN la \<and> \<not> isNaN lo) \<and>
   (sim_validateCoordinates la lo \<longleftrightarrow>
      (\<exists>x. la = Fin x \<and> - 90 \<le> x \<and> x \<le> 90) \<and>
      (\<exists>y. lo = Fin y \<and> - 180 \<le> y \<and> y \<le> 180) \<and> \<not> isNaN la \<and> \<not> isNaN lo) \<and>
   (validateCoordinates a b = Valid \<or> (\<exists>m. validateCoordinates a b = Invalid m))"
proof (intro conjI)
  show "validateCoordinates (JNum la) (JNum lo) = Valid \<longleftrightarrow>
      (\<exists>x. la = Fin x \<and> - 90 \<le> x \<and> x \<le> 90) \<and>
      (\<exists>y. lo = Fin y \<and> - 180 \<le> y \<and> y \<le> 180) \<and> \<not> isNaN la \<and> \<not> isNaN lo"
    by (cases la; cases lo) (auto simp: num_greater_def isNaN_def)
  show "sim_validateCoordinates la lo \<longleftrightarrow>
      (\<exists>x. la = Fin x \<and> - 90 \<le> x \<and> x \<le> 90) \<and>
      (\<exists>y. lo = Fin y \<and> - 180 \<le> y \<and> y \<le> 180) \<and> \<not> isNaN la \<and> \<not> isNaN lo"
    by (cases la; cases lo) (auto simp: sim_validateCoordinates_def num_greater_def isNaN_def)
  show "validateCoordinates a b = Valid \<longleftrightarrow>
      (\<exists>x y. a = JNum (Fin x) \<and> b = JNum (Fin y) \<and>
         - 90 \<le> x \<and> x \<le> 90 \<and> - 180 \<le> y \<and> y \<le> 180)"
  proof (cases a)
    case a: (JNum p)
    show ?thesis
    proof (cases b)
      case b: (JNum q)
      show ?thesis
        unfolding a b by (cases p; cases q) (auto simp: num_greater_def isNaN_def)
    qed (simp_all add: a)
  qed simp_all
  show "validateCoordinates a b = Valid \<or> (\<exists>m. validateCoordinates a b = Invalid m)"
    by (cases "validateCoordinates a b") simp_all
qed

theorem validateCoordinates_accepts_iff_witness:
  "validateCoordinates (JNum (Fin 90)) (JNum (Fin (- 180))) = Valid \<and>
   validateCoordinates (JNum (Fin 90.5)) (JNum (Fin 0)) \<noteq> Valid \<and>
   validateCoordinates (JNum NaN) (JNum (Fin 0)) \<noteq> Valid \<and>
   validateCoordinates (JNum (Fin 0)) (JNum PosInf) \<noteq> Valid \<and>
   validateCoordinates (JStr (str ''45'')) (JNum (Fin 0)) \<noteq> Valid \<and>
   sim_validateCoordinates (Fin 90) (Fin (- 180)) \<and>
   \<not> sim_validateCoordinates NaN (Fin 0)"
  using validateCoordinates_accepts_iff [of "JNum (Fin 90)" "JNum (Fin (- 180))" "Fin 90" "Fin (- 180)"]
    validateCoordinates_accepts_iff [of "JNum (Fin 90.5)" "JNum (Fin 0)" NaN "Fin 0"]
    validateCoordinates_accepts_iff [of "JNum NaN" "JNum (Fin 0)"]
    validateCoordinates_accepts_iff [of "JNum (Fin 0)" "JNum PosInf"]
    validateCoordinates_accepts_iff [of "JStr (str ''45'')" "JNum (Fin 0)"]
  by (simp add: isNaN_def)

section \<open>Create\<close>

lemma create_conflict:
  assumes "req_name b = Some n" and "n \<noteq> []" and "coords_pass e b"
    and "findOne (trim n) s \<noteq> None"
  shows "create e b s = (Response 400 (Error (AlreadyExists n)), s)"
proof -
  have "req_lat b \<noteq> JUndefined" "req_lng b \<noteq> JUndefined"
    using assms(3) coords_pass_defined by blast+
  with assms show ?thesis
    by (auto simp: create_def falsy_def coords_pass_def filter_name_trim
        simp del: validateCoordinates.simps)
qed

lemma create_created:
  assumes "req_name b = Some n" and "trim n \<noteq> []" and "coords_pass e b"
    and "findOne (trim n) s = None"
  defines "la \<equiv> parseFloat (parse_string e) (req_lat b)"
    and "lo \<equiv> parseFloat (parse_string e) (req_lng b)"
  defines "v \<equiv> \<lparr>vid = new_id e, name = trim n, lat = la, lng = lo,
      lastUpdated = now_lastUpdated e,
      locationHistory = [\<lparr>loc_lat = la, loc_lng = lo, timestamp = now_timestamp e\<rparr>],
      createdAt = now_save e, updatedAt = now_save e\<rparr>"
  shows "create e b s = (Response 201 (Success ''Vehicle added successfully'' v), s @ [v])"
proof -
  have "req_lat b \<noteq> JUndefined" "req_lng b \<noteq> JUndefined"
    using assms(3) coords_pass_defined by blast+
  moreover have "n \<noteq> []" using assms(2) by (auto simp: trim_def)
  ultimately show ?thesis using assms(1-4)
    by (simp add: create_def falsy_def coords_pass_def save_new_def v_def la_def lo_def Let_def
        filter_name_trim
        del: validateCoordinates.simps)
qed

lemma create_201_only_if:
  assumes "create e b s = (Response 201 p, s')"
  shows "\<exists>n. req_name b = Some n \<and> n \<noteq> [] \<and> trim n \<noteq> [] \<and> coords_pass e b \<and>
           findOne (trim n) s = None"
  using assms
  by (auto simp: create_def falsy_def coords_pass_def save_new_def Let_def filter_name_trim
      simp del: validateCoordinates.simps
      split: if_splits validation.splits option.splits)

lemma create_error_unchanged:
  "create e b s = (Response st (Error m), s') \<Longrightarrow> s' = s"
  by (auto simp: create_def save_new_def Let_def
      split: if_splits validation.splits option.splits)

lemma create_existing_400:
  assumes "req_name b = Some n" and "findOne (trim n) s \<noteq> None"
  shows "\<exists>m. create e b s = (Response 400 (Error m), s)"
  using assms
  by (auto simp: create_def Let_def filter_name_trim split: validation.splits option.splits)


lemma validate_message_kind:
  "validateCoordinates a b = Invalid m \<Longrightarrow> m \<noteq> AlreadyExists n"
  by (cases a; cases b) (auto split: if_splits)

lemma create_invalid_kind:
  assumes "req_name b = Some n" and "\<not> coords_pass e b"
  shows "\<exists>m. create e b s = (Response 400 (Error m), s) \<and> m \<noteq> AlreadyExists n \<and>
     (m = Lit ''Vehicle name, latitude, and longitude are required'' \<or>
      validateCoordinates (JNum (parseFloat (parse_string e) (req_lat b)))
        (JNum (parseFloat (parse_string e) (req_lng b))) = Invalid m)"
proof (cases "falsy (req_name b) \<or> req_lat b = JUndefined \<or> req_lng b = JUndefined")
  case True
  then show ?thesis
    by (simp add: create_def)
next
  case False
  from assms(2) obtain m where m: "validateCoordinates
      (JNum (parseFloat (parse_string e) (req_lat b)))
      (JNum (parseFloat (parse_string e) (req_lng b))) = Invalid m"
    unfolding coords_pass_def by (meson validation.exhaust)
  then have "create e b s = (Response 400 (Error m), s)"
    using False by (simp add: create_def Let_def del: validateCoordinates.simps)
  with m validate_message_kind [OF m] show ?thesis
    by blast
qed

lemma findOne_snoc_same: "name v = n \<Longrightarrow> findOne n (s @ [v]) \<noteq> None"
  by (simp add: findOne_None_iff)

lemma count_name_fresh: "findOne n s = None \<Longrightarrow> filter (\<lambda>w. name w = n) s = []"
  by (simp add: findOne_None_iff filter_empty_conv)

text \<open>
  Claim C4, as amended. A create request that gives a name, whose coordinates pass
  validation and whose trimmed name is the name of a stored vehicle, is answered 400 with
  the already-exists message, and the store is left as it was. Whatever its coordinates,
  a create request whose trimmed name is the name of a stored vehicle is answered 400 with
  some error and leaves the store as it was. After a create request has added a
  vehicle, a second request with the same name is answered 400 (with the already-exists
  message when its coordinates pass validation), the store is unchanged, and it holds
  exactly one vehicle of that trimmed name. A create request whose coordinates do not
  pass validation is answered 400 with a validation message (the required-fields
  message or the message of the coordinate check), never with the already-exists
  message, and leaves the store as it was.
\<close>

theorem create_existing_name_conflict:
  "(req_name b = Some n \<and> n \<noteq> [] \<and> coords_pass e b \<and> findOne (trim n) s \<noteq> None \<longrightarrow>
      create e b s = (Response 400 (Error (AlreadyExists n)), s)) \<and>
   (req_name b = Some n \<and> findOne (trim n) s \<noteq> None \<longrightarrow>
      (\<exists>m. create e b s = (Response 400 (Error m), s))) \<and>
   (create e b s = (Response 201 p, s1) \<and> req_name b = Some n \<and> req_name b2 = Some n \<longrightarrow>
      (\<exists>m. create e2 b2 s1 = (Response 400 (Error m), s1)) \<and>
      (coords_pass e2 b2 \<longrightarrow> create e2 b2 s1 = (Response 400 (Error (AlreadyExists n)), s1)) \<and>
      length (filter (\<lambda>w. name w = trim n) s1) = 1) \<and>
   (req_name b = Some n \<and> \<not> coords_pass e b \<longrightarrow>
      (\<exists>m. create e b s = (Response 400 (Error m), s) \<and> m \<noteq> AlreadyExists n \<and>
         (m = Lit ''Vehicle name, latitude, and longitude are required'' \<or>
          validateCoordinates (JNum (parseFloat (parse_string e) (req_lat b)))
            (JNum (parseFloat (parse_string e) (req_lng b))) = Invalid m)))"
proof (intro conjI impI)
  assume "req_name b = Some n \<and> n \<noteq> [] \<and> coords_pass e b \<and> findOne (trim n) s \<noteq> None"
  then show "create e b s = (Response 400 (Error (AlreadyExists n)), s)"
    by (simp add: create_conflict)
next
  assume "req_name b = Some n \<and> \<not> coords_pass e b"
  then show "\<exists>m. create e b s = (Response 400 (Error m), s) \<and> m \<noteq> AlreadyExists n \<and>
         (m = Lit ''Vehicle name, latitude, and longitude are required'' \<or>
          validateCoordinates (JNum (parseFloat (parse_string e) (req_lat b)))
            (JNum (parseFloat (parse_string e) (req_lng b))) = Invalid m)"
    using create_invalid_kind [of b n e s] by blast
next
  assume "req_name b = Some n \<and> findOne (trim n) s \<noteq> None"
  then show "\<exists>m. create e b s = (Response 400 (Error m), s)"
    by (simp add: create_existing_400)
next
  assume h: "create e b s = (Response 201 p, s1) \<and> req_name b = Some n \<and> req_name b2 = Some n"
  then obtain k where k: "req_name b = Some k" "k \<noteq> []" "trim k \<noteq> []" "coords_pass e b"
      "findOne (trim k) s = None"
    using create_201_only_if by blast
  with h have kn: "k = n" by simp
  from create_created [OF k(1,3,4,5)] h
  obtain v where v: "s1 = s @ [v]" "name v = trim n"
    unfolding kn by auto
  have ex: "findOne (trim n) s1 \<noteq> None"
    unfolding v(1) using v(2) by (rule findOne_snoc_same)
  show "\<exists>m. create e2 b2 s1 = (Response 400 (Error m), s1)"
    using h ex by (simp add: create_existing_400)
  show "length (filter (\<lambda>w. name w = trim n) s1) = 1"
    using k(5) v by (simp add: kn count_name_fresh)
  assume "coords_pass e2 b2"
  then show "create e2 b2 s1 = (Response 400 (Error (AlreadyExists n)), s1)"
    using h ex k(2) kn by (simp add: create_conflict)
qed

text \<open>
  The claim as first stated fails where the coordinates do not pass validation: the
  coordinate check comes before the lookup, so a request naming the stored vehicle
  Car-1 with latitude 91 is answered with the invalid-latitude message, not with the
  already-exists message.
\<close>

theorem create_existing_name_conflict_counterexample:
  "findOne (str ''Car-1'') [car1] = Some car1 \<and>
   create env0 (bad_lat_body ''Car-1'') [car1] =
     (Response 400 (Error (InvalidLatitude (Fin 91))), [car1]) \<and>
   Response 400 (Error (InvalidLatitude (Fin 91))) \<noteq>
     Response 400 (Error (AlreadyExists (str ''Car-1'')))"
  by (simp add: findOne_def car1_def create_def bad_lat_body_def falsy_def env0_def str_def
      num_greater_def)

theorem create_existing_name_conflict_witness:
  "\<exists>v. create env0 (add_body ''Car-1'') [] =
       (Response 201 (Success ''Vehicle added successfully'' v), [v]) \<and>
     create env0 (add_body ''Car-1'') [v] =
       (Response 400 (Error (AlreadyExists (str ''Car-1''))), [v]) \<and>
     create env0 (bad_lat_body ''Car-1'') [v] =
       (Response 400 (Error (InvalidLatitude (Fin 91))), [v]) \<and>
     length (filter (\<lambda>w. name w = str ''Car-1'') [v]) = 1"
proof -
  have t: "trim (str ''Car-1'') = str ''Car-1''"
    by (simp add: trim_def str_def is_space_def)
  have c: "coords_pass env0 (add_body ''Car-1'')"
    by (simp add: coords_pass_iff in_interval_def add_body_def env0_def)
  have n: "req_name (add_body ''Car-1'') = Some (str ''Car-1'')"
    "req_name (bad_lat_body ''Car-1'') = Some (str ''Car-1'')"
    by (simp_all add: add_body_def bad_lat_body_def)
  have ne: "trim (str ''Car-1'') \<noteq> []"
    unfolding t by (simp add: str_def)
  have f: "findOne (trim (str ''Car-1'')) [] = None"
    by (simp add: findOne_def)
  from create_created [OF n(1) ne c f]
  obtain v where v: "create env0 (add_body ''Car-1'') [] =
      (Response 201 (Success ''Vehicle added successfully'' v), [v])"
    by auto
  have bad: "create env0 (bad_lat_body ''Car-1'') [v] =
       (Response 400 (Error (InvalidLatitude (Fin 91))), [v])"
    by (simp add: create_def bad_lat_body_def falsy_def env0_def str_def num_greater_def)
  from create_existing_name_conflict [of "add_body ''Car-1''" "str ''Car-1''" env0 "[]"
      "Success ''Vehicle added successfully'' v" "[v]" "add_body ''Car-1''" env0] v n c
  have "create env0 (add_body ''Car-1'') [v] =
       (Response 400 (Error (AlreadyExists (str ''Car-1''))), [v])"
    and "length (filter (\<lambda>w. name w = trim (str ''Car-1'')) [v]) = 1"
    by simp_all
  with v bad show ?thesis unfolding t by blast
qed

lemma dropWhile_all: "list_all P xs \<Longrightarrow> dropWhile P (xs @ ys) = dropWhile P ys"
  by (induction xs) simp_all

lemma trim_prefix: "list_all is_space pre \<Longrightarrow> trim (pre @ n) = trim n"
  by (simp add: trim_def dropWhile_all)

lemma trim_suffix:
  assumes "list_all is_space post"
  shows "trim (n @ post) = trim n"
proof (cases "list_all is_space n")
  case True
  then have "dropWhile is_space n = []" "dropWhile is_space (n @ post) = []"
    using assms by (auto simp: list_all_iff dropWhile_eq_Nil_conv)
  then show ?thesis by (simp only: trim_def)
next
  case False
  then have d: "dropWhile is_space (n @ post) = dropWhile is_space n @ post"
    by (auto simp: list_all_iff dropWhile_append1)
  have "list_all is_space (rev post)"
    using assms by (simp add: list_all_iff)
  then show ?thesis
    by (simp add: trim_def d dropWhile_all)
qed

lemma trim_surround:
  "list_all is_space pre \<Longrightarrow> list_all is_space post \<Longrightarrow> trim (pre @ n @ post) = trim n"
  by (simp add: trim_prefix trim_suffix)

text \<open>
  Claim C10, as amended. When a create request is answered 201, the lookup for an
  existing vehicle was made with the trimmed name and found none, and the stored
  document has the trimmed name as its name. From then on a create request whose name
  has the same trimmed form and whose coordinates pass validation is answered 400 with
  the already-exists message, and the store is left as it was. Names that differ only
  in surrounding whitespace have the same trimmed form.
\<close>

theorem create_trims_name:
  assumes "create e b s = (Response 201 p, s1)" and "req_name b = Some n"
  shows "\<exists>v. p = Success ''Vehicle added successfully'' v \<and> s1 = s @ [v] \<and>
      name v = trim n \<and> findOne (trim n) s = None \<and>
      (\<forall>e2 b2 n2. req_name b2 = Some n2 \<and> trim n2 = trim n \<and> coords_pass e2 b2 \<longrightarrow>
         create e2 b2 s1 = (Response 400 (Error (AlreadyExists n2)), s1)) \<and>
      (\<forall>pre post. list_all is_space pre \<and> list_all is_space post \<longrightarrow>
         trim (pre @ n @ post) = trim n)"
proof -
  obtain k where k: "req_name b = Some k" "trim k \<noteq> []" "coords_pass e b"
      "findOne (trim k) s = None"
    using create_201_only_if [OF assms(1)] by blast
  with assms(2) have kn: "k = n" by simp
  from create_created [OF k] assms(1)
  obtain v where v: "p = Success ''Vehicle added successfully'' v" "s1 = s @ [v]"
      "name v = trim n"
    unfolding kn by auto
  have ex: "findOne (trim n) s1 \<noteq> None"
    unfolding v(2) using v(3) by (rule findOne_snoc_same)
  have dup: "create e2 b2 s1 = (Response 400 (Error (AlreadyExists n2)), s1)"
    if "req_name b2 = Some n2 \<and> trim n2 = trim n \<and> coords_pass e2 b2" for e2 b2 n2
  proof -
    from that k(2) have "trim n2 \<noteq> []"
      unfolding kn by simp
    then have "n2 \<noteq> []"
      by (auto simp: trim_def)
    with that ex show ?thesis
      by (simp add: create_conflict)
  qed
  show ?thesis
    using v k(4) dup by (intro exI [of _ v]) (simp add: kn trim_surround)
qed

text \<open>
  The claim as first stated fails where the second request does not pass validation:
  after '' Car-9  '' has been created as Car-9, a request naming ''Car-9 '' with latitude
  91 is answered with the invalid-latitude message, not with the already-exists message.
\<close>

theorem create_trims_name_counterexample:
  "trim (str '' Car-9  '') = trim (str ''Car-9 '') \<and>
   create env0 (spaced_body '' Car-9  '') [car1] =
     (Response 201 (Success ''Vehicle added successfully'' car9), [car1, car9]) \<and>
   create env0 (bad_lat_body ''Car-9 '') [car1, car9] =
     (Response 400 (Error (InvalidLatitude (Fin 91))), [car1, car9]) \<and>
   Response 400 (Error (InvalidLatitude (Fin 91))) \<noteq>
     Response 400 (Error (AlreadyExists (str ''Car-9 '')))"
proof -
  have t: "trim (str '' Car-9  '') = str ''Car-9''" "trim (str ''Car-9 '') = str ''Car-9''"
    by (simp_all add: trim_def str_def is_space_def)
  have c: "coords_pass env0 (spaced_body '' Car-9  '')"
    by (simp add: coords_pass_iff in_interval_def spaced_body_def env0_def)
  have n: "req_name (spaced_body '' Car-9  '') = Some (str '' Car-9  '')"
    by (simp add: spaced_body_def)
  have ne: "trim (str '' Car-9  '') \<noteq> []"
    unfolding t by (simp add: str_def)
  have f: "findOne (trim (str '' Car-9  '')) [car1] = None"
    unfolding t by (simp add: findOne_def car1_def str_def)
  have first: "create env0 (spaced_body '' Car-9  '') [car1] =
     (Response 201 (Success ''Vehicle added successfully'' car9), [car1, car9])"
    using create_created [OF n ne c f] by (simp add: t car9_def spaced_body_def env0_def)
  have second: "create env0 (bad_lat_body ''Car-9 '') [car1, car9] =
     (Response 400 (Error (InvalidLatitude (Fin 91))), [car1, car9])"
    by (simp add: create_def bad_lat_body_def falsy_def env0_def str_def num_greater_def)
  show ?thesis
    using t first second by simp
qed

theorem create_trims_name_witness:
  "\<exists>v. create env0 (spaced_body '' Car-9  '') [car1] =
       (Response 201 (Success ''Vehicle added successfully'' v), [car1, v]) \<and>
     name v = str ''Car-9'' \<and>
     create env0 (spaced_body ''Car-9 '') [car1, v] =
       (Response 400 (Error (AlreadyExists (str ''Car-9 ''))), [car1, v])"
proof -
  have t: "trim (str '' Car-9  '') = str ''Car-9''" "trim (str ''Car-9 '') = str ''Car-9''"
    by (simp_all add: trim_def str_def is_space_def)
  have c: "coords_pass env0 (spaced_body '' Car-9  '')" "coords_pass env0 (spaced_body ''Car-9 '')"
    by (simp_all add: coords_pass_iff in_interval_def spaced_body_def env0_def)
  have n: "req_name (spaced_body '' Car-9  '') = Some (str '' Car-9  '')"
    "req_name (spaced_body ''Car-9 '') = Some (str ''Car-9 '')"
    by (simp_all add: spaced_body_def)
  have ne: "trim (str '' Car-9  '') \<noteq> []"
    unfolding t by (simp add: str_def)
  have f: "findOne (trim (str '' Car-9  '')) [car1] = None"
    unfolding t by (simp add: findOne_def car1_def str_def)
  from create_created [OF n(1) ne c(1) f]
  obtain v where v: "create env0 (spaced_body '' Car-9  '') [car1] =
      (Response 201 (Success ''Vehicle added successfully'' v), [car1, v])"
    by auto
  from create_trims_name [OF v n(1)]
  have "name v = trim (str '' Car-9  '')"
    and "\<forall>e2 b2 n2. req_name b2 = Some n2 \<and> trim n2 = trim (str '' Car-9  '') \<and>
        coords_pass e2 b2 \<longrightarrow>
        create e2 b2 [car1, v] = (Response 400 (Error (AlreadyExists n2)), [car1, v])"
    by auto
  with n(2) c(2) t v show ?thesis
    by (intro exI [of _ v]) simp
qed

section \<open>The invariant of stored vehicles\<close>

lemma create_saved:
  assumes "create e b s = (Response 201 (Success m v), s')"
  shows "vehicle_inv v \<and> s' = s @ [v]"
proof -
  obtain n where h: "req_name b = Some n" "trim n \<noteq> []" "coords_pass e b"
      "findOne (trim n) s = None"
    using create_201_only_if [OF assms] by blast
  from create_created [OF h] assms
  have "s' = s @ [v]" "lat v = parseFloat (parse_string e) (req_lat b)"
    "lng v = parseFloat (parse_string e) (req_lng b)"
    "length (locationHistory v) = 1"
    by auto
  then show ?thesis
    using coords_pass_inv [OF h(3)] by (simp add: vehicle_inv_def)
qed

lemma create_result_cases:
  "(\<exists>st m. create e b s = (Response st (Error m), s)) \<or>
   (\<exists>m v. create e b s = (Response 201 (Success m v), s @ [v]))"
  by (auto simp: create_def save_new_def Let_def split: validation.splits option.splits)

lemma update_result_cases:
  "(\<exists>st m. update e b s = (Response st (Error m), s)) \<or>
   (\<exists>m v. update e b s = (Response 200 (Success m v), save v s))"
  by (auto simp: update_def Let_def split: validation.splits option.splits)

lemma list_all_save:
  "list_all P s \<Longrightarrow> P v \<Longrightarrow> list_all P (save v s)"
  by (induction s) (simp_all add: save_def)

text \<open>
  Claim C5. The document a create request answered 201 has added to the store, and the
  document an update request answered 200 has saved, satisfy the invariant: latitude in
  -90..90, longitude in -180..180, neither of them NaN, at most 100 history entries. If
  every stored vehicle satisfies the invariant, then so does every stored vehicle after
  any create request and after any update request.
\<close>

theorem create_update_keep_invariant:
  "(create e b s = (Response 201 (Success m v), s1) \<longrightarrow> vehicle_inv v \<and> s1 = s @ [v]) \<and>
   (update e b s = (Response 200 (Success m v), s2) \<longrightarrow> vehicle_inv v \<and> s2 = save v s) \<and>
   (list_all vehicle_inv s \<longrightarrow>
      list_all vehicle_inv (snd (create e b s)) \<and> list_all vehicle_inv (snd (update e b s)))"
proof (intro conjI impI)
  assume "create e b s = (Response 201 (Success m v), s1)"
  then show "vehicle_inv v" "s1 = s @ [v]"
    using create_saved by blast+
next
  assume "update e b s = (Response 200 (Success m v), s2)"
  then show "vehicle_inv v" "s2 = save v s"
    using update_saved by blast+
next
  assume inv: "list_all vehicle_inv s"
  show "list_all vehicle_inv (snd (create e b s))"
    using create_result_cases [of e b s]
  proof (elim disjE exE)
    fix st m' assume "create e b s = (Response st (Error m'), s)"
    then show ?thesis using inv by simp
  next
    fix m' w assume c: "create e b s = (Response 201 (Success m' w), s @ [w])"
    then have "vehicle_inv w" using create_saved by blast
    then show ?thesis using inv c by simp
  qed
  show "list_all vehicle_inv (snd (update e b s))"
    using update_result_cases [of e b s]
  proof (elim disjE exE)
    fix st m' assume "update e b s = (Response st (Error m'), s)"
    then show ?thesis using inv by simp
  next
    fix m' w assume c: "update e b s = (Response 200 (Success m' w), save w s)"
    then have "vehicle_inv w" using update_saved by blast
    then show ?thesis using inv c by (simp add: list_all_save)
  qed
qed

theorem create_update_keep_invariant_witness:
  "list_all vehicle_inv [car1, bus] \<and>
   list_all vehicle_inv (snd (create env0 (add_body ''Car-2'') [car1, bus])) \<and>
   length (snd (create env0 (add_body ''Car-2'') [car1, bus])) = 3 \<and>
   list_all vehicle_inv (snd (update env0 (move_body ''Bus'') [car1, bus])) \<and>
   fst (update env0 (move_body ''Bus'') [car1, bus]) \<noteq>
     Response 404 (Error (NotFoundNamed (str ''Bus'')))"
proof -
  have inv: "list_all vehicle_inv [car1, bus]"
    by (simp add: vehicle_inv_def in_interval_def isNaN_def car1_def bus_def)
  have t: "trim (str ''Car-2'') = str ''Car-2''"
    by (simp add: trim_def str_def is_space_def)
  have "create env0 (add_body ''Car-2'') [car1, bus] =
     (Response 201 (Success ''Vehicle added successfully''
        \<lparr>vid = 2, name = str ''Car-2'', lat = Fin 23.81, lng = Fin 90.41, lastUpdated = 5000,
          locationHistory = [\<lparr>loc_lat = Fin 23.81, loc_lng = Fin 90.41, timestamp = 5001\<rparr>],
          createdAt = 5002, updatedAt = 5002\<rparr>),
      [car1, bus] @ [\<lparr>vid = 2, name = str ''Car-2'', lat = Fin 23.81, lng = Fin 90.41, lastUpdated = 5000,
          locationHistory = [\<lparr>loc_lat = Fin 23.81, loc_lng = Fin 90.41, timestamp = 5001\<rparr>],
          createdAt = 5002, updatedAt = 5002\<rparr>])"
    apply (subst create_created [where n = "str ''Car-2''"])
    apply (simp_all add: add_body_def t env0_def coords_pass_iff in_interval_def findOne_def car1_def bus_def)
     apply (simp_all add: str_def)
    done
  then have len: "length (snd (create env0 (add_body ''Car-2'') [car1, bus])) = 3"
    by simp
  have "trim (str ''Bus'') = str ''Bus''"
    by (simp add: trim_def str_def is_space_def)
  then have f: "findOne (filter_name env0 (str ''Bus'')) [car1, bus] = Some bus"
    by (simp add: filter_name_def findOne_def car1_def bus_def) (simp add: str_def)
  have c: "coords_pass env0 (move_body ''Bus'')"
    by (simp add: coords_pass_iff in_interval_def move_body_def env0_def)
  have n: "req_name (move_body ''Bus'') = Some (str ''Bus'')" "str ''Bus'' \<noteq> []"
    by (simp_all add: move_body_def str_def)
  have up: "fst (update env0 (move_body ''Bus'') [car1, bus]) \<noteq>
     Response 404 (Error (NotFoundNamed (str ''Bus'')))"
    by (simp add: update_found [OF n c f] Let_def)
  from create_update_keep_invariant [of env0 "add_body ''Car-2''" "[car1, bus]"] inv
  have "list_all vehicle_inv (snd (create env0 (add_body ''Car-2'') [car1, bus]))"
    by blast
  moreover from create_update_keep_invariant [of env0 "move_body ''Bus''" "[car1, bus]"] inv
  have "list_all vehicle_inv (snd (update env0 (move_body ''Bus'') [car1, bus]))"
    by blast
  ultimately show ?thesis using inv len up by blast
qed

section \<open>Listing\<close>

lemma transform_None_iff: "transform pf v = None \<longleftrightarrow> \<not> stored_valid v"
  by (simp add: transform_def stored_valid_def Let_def split: validation.splits)

lemma transform_lastUpdated:
  "stored_valid v \<Longrightarrow> l_lastUpdated (the (transform pf v)) = lastUpdated v"
  by (simp add: transform_def stored_valid_def Let_def)

lemma transform_id:
  "stored_valid v \<Longrightarrow> l_id (the (transform pf v)) = vid v"
  by (simp add: transform_def stored_valid_def Let_def)

lemma map_filter_transform:
  "List.map_filter (transform pf) xs = map (the \<circ> transform pf) (filter stored_valid xs)"
  by (simp add: List.map_filter_def transform_None_iff)

lemma find_sorted_descending:
  "sorted_wrt (\<lambda>a b. lastUpdated a \<ge> lastUpdated b) (find_sorted s)"
proof -
  have "sorted (map (\<lambda>v. - lastUpdated v) (find_sorted s))"
    by (simp add: find_sorted_def)
  then show ?thesis
    by (simp add: sorted_map)
qed

lemma mset_find_sorted: "mset (find_sorted s) = mset s"
  by (simp add: find_sorted_def)

lemma mset_two: "mset xs = {#a, b#} \<Longrightarrow> xs = [a, b] \<or> xs = [b, a]"
proof -
  assume h: "mset xs = {#a, b#}"
  have "size (mset xs) = size {#a, b#}"
    by (simp only: h)
  then have "length xs = 2"
    by simp
  then obtain x y where xs: "xs = [x, y]"
    by (metis (no_types, opaque_lifting) One_nat_def Suc_1 length_0_conv length_Suc_conv)
  with h show ?thesis
    by (auto simp: add_eq_conv_ex)
qed

lemma transform_item:
  "stored_valid v \<Longrightarrow> the (transform pf v) =
     \<lparr>l_id = vid v, l_name = name v, l_lat = lat v, l_lng = lng v, l_latitude = lat v,
      l_longitude = lng v, l_lastActive = lastUpdated v, l_lastUpdated = lastUpdated v,
      l_locationHistory = locationHistory v, l_createdAt = createdAt v,
      l_updatedAt = updatedAt v\<rparr>"
  by (simp add: transform_def stored_valid_def Let_def)

lemma stored_valid_iff:
  "stored_valid v \<longleftrightarrow> in_interval (- 90) 90 (lat v) \<and> in_interval (- 180) 180 (lng v)"
  by (simp only: stored_valid_def validate_Valid_iff)

text \<open>
  Claim C6. For every store the list handler answers 200, and the items of the answer are
  the stored vehicles whose coordinates pass the validation predicate (each stored
  document once, those and no others), in descending order of \<open>lastUpdated\<close>, each
  item carrying the identifier, the name, the coordinates (also as \<open>latitude\<close> and
  \<open>longitude\<close>), \<open>lastUpdated\<close> (also as \<open>lastActive\<close>), the history and the two
  time stamps of its vehicle. A stored vehicle whose coordinates fail the predicate,
  that is, are not a latitude in -90..90 and a longitude in -180..180, is left out, and
  the answer is 200 whatever the store holds.
\<close>

theorem list_sorted_valid_only:
  "\<exists>vs. mset vs = filter_mset stored_valid (mset s) \<and>
     sorted_wrt (\<lambda>a b. lastUpdated a \<ge> lastUpdated b) vs \<and>
     list_vehicles e s = Response 200 (Listing (map (\<lambda>v.
       \<lparr>l_id = vid v, l_name = name v, l_lat = lat v, l_lng = lng v, l_latitude = lat v,
        l_longitude = lng v, l_lastActive = lastUpdated v, l_lastUpdated = lastUpdated v,
        l_locationHistory = locationHistory v, l_createdAt = createdAt v,
        l_updatedAt = updatedAt v\<rparr>) vs)) \<and>
     (\<forall>v. stored_valid v \<longleftrightarrow>
        in_interval (- 90) 90 (lat v) \<and> in_interval (- 180) 180 (lng v))"
proof -
  let ?vs = "filter stored_valid (find_sorted s)"
  have m: "mset ?vs = filter_mset stored_valid (mset s)"
    by (simp add: mset_find_sorted)
  have d: "sorted_wrt (\<lambda>a b. lastUpdated a \<ge> lastUpdated b) ?vs"
    by (rule sorted_wrt_filter) (rule find_sorted_descending)
  have "map (the \<circ> transform (parse_string e)) ?vs = map (\<lambda>v.
       \<lparr>l_id = vid v, l_name = name v, l_lat = lat v, l_lng = lng v, l_latitude = lat v,
        l_longitude = lng v, l_lastActive = lastUpdated v, l_lastUpdated = lastUpdated v,
        l_locationHistory = locationHistory v, l_createdAt = createdAt v,
        l_updatedAt = updatedAt v\<rparr>) ?vs"
    by (rule map_cong) (simp_all add: transform_item)
  then have run: "list_vehicles e s = Response 200 (Listing (map (\<lambda>v.
       \<lparr>l_id = vid v, l_name = name v, l_lat = lat v, l_lng = lng v, l_latitude = lat v,
        l_longitude = lng v, l_lastActive = lastUpdated v, l_lastUpdated = lastUpdated v,
        l_locationHistory = locationHistory v, l_createdAt = createdAt v,
        l_updatedAt = updatedAt v\<rparr>) ?vs))"
    by (simp add: list_vehicles_def map_filter_transform)
  show ?thesis
    using m d run stored_valid_iff by blast
qed

theorem list_sorted_valid_only_witness:
  "\<not> stored_valid wreck \<and> stored_valid car1 \<and> stored_valid van \<and>
   list_vehicles env0 [car1, wreck, van] = Response 200 (Listing
     [\<lparr>l_id = 5, l_name = str ''Van'', l_lat = Fin (- 90), l_lng = Fin 180,
       l_latitude = Fin (- 90), l_longitude = Fin 180, l_lastActive = 3000,
       l_lastUpdated = 3000, l_locationHistory = [], l_createdAt = 0, l_updatedAt = 3000\<rparr>,
      \<lparr>l_id = 1, l_name = str ''Car-1'', l_lat = Fin 23.81, l_lng = Fin 90.41,
       l_latitude = Fin 23.81, l_longitude = Fin 90.41, l_lastActive = 1000,
       l_lastUpdated = 1000,
       l_locationHistory = [\<lparr>loc_lat = Fin 23.81, loc_lng = Fin 90.41, timestamp = 1000\<rparr>],
       l_createdAt = 1000, l_updatedAt = 1000\<rparr>])"
proof -
  have sv: "\<not> stored_valid wreck" "stored_valid car1" "stored_valid van"
    by (simp_all only: stored_valid_iff) (simp_all add: in_interval_def wreck_def car1_def van_def)
  have lu: "lastUpdated car1 < lastUpdated van"
    by (simp add: car1_def van_def)
  from list_sorted_valid_only [of "[car1, wreck, van]" env0]
  obtain vs where vs: "mset vs = filter_mset stored_valid (mset [car1, wreck, van])"
    "sorted_wrt (\<lambda>a b. lastUpdated a \<ge> lastUpdated b) vs"
    "list_vehicles env0 [car1, wreck, van] = Response 200 (Listing (map (\<lambda>v.
       \<lparr>l_id = vid v, l_name = name v, l_lat = lat v, l_lng = lng v, l_latitude = lat v,
        l_longitude = lng v, l_lastActive = lastUpdated v, l_lastUpdated = lastUpdated v,
        l_locationHistory = locationHistory v, l_createdAt = createdAt v,
        l_updatedAt = updatedAt v\<rparr>) vs))"
    by blast
  from vs(1) sv have "mset vs = {#van, car1#}"
    by simp
  then have "vs = [van, car1] \<or> vs = [car1, van]"
    by (rule mset_two)
  with vs(2) lu have "vs = [van, car1]"
    by auto
  with vs(3) sv show ?thesis
    by (simp add: car1_def van_def)
qed

section \<open>Replies of the user service\<close>



lemma register_created:
  fixes e :: uenv
  assumes "reg_username b = Some un" and "reg_email b = Some em" and "em \<noteq> []"
    and "reg_password b = Some pw" and "6 \<le> length pw" and "3 \<le> length un"
    and "findOne_or un em s = None"
  defines "u \<equiv> \<lparr>uid = user_id e, username = un, email = em, password = bcrypt_hash e pw 12,
      user_createdAt = user_now e, user_updatedAt = user_now e\<rparr>"
  shows "register e b s =
     (Reply 201 (JObject [(''success'', JBoolean True),
        (''message'', JText (str ''User registered successfully'')),
        (''user'', public_view u)]), s @ [u])"
proof -
  have "un \<noteq> []" "pw \<noteq> []" using assms(5,6) by auto
  with assms(1-7) show ?thesis
    by (simp add: register_def falsy_def Let_def public_view_def u_def)
qed

text \<open>
  Claim C8. Take a register request with username and email present. If its password
  has fewer than 6 code units, the request is answered 400 with a validation message
  (the missing-fields message when the password is empty, the password-length message
  otherwise) and the store is unchanged. If its password has at least 6 code units (so
  also exactly 6), its username at least 3, and no stored user has that username or that
  email, the request is answered 201 and the user is added to the store with the hash of
  the password. If its username has fewer than 3 code units, the request is answered 400
  with a validation message and the store is unchanged.
\<close>

theorem register_length_boundaries:
  assumes "reg_username b = Some un" and "un \<noteq> []"
    and "reg_email b = Some em" and "em \<noteq> []"
    and "reg_password b = Some pw"
  shows "(length pw < 6 \<longrightarrow>
       register e b s = (Reply 400 (failure (if pw = []
          then ''Please provide username, email, and password''
          else ''Password must be at least 6 characters long'')), s)) \<and>
     (6 \<le> length pw \<and> 3 \<le> length un \<and> findOne_or un em s = None \<longrightarrow>
       (\<exists>u. register e b s =
          (Reply 201 (JObject [(''success'', JBoolean True),
             (''message'', JText (str ''User registered successfully'')),
             (''user'', public_view u)]), s @ [u]) \<and>
          uid u = user_id e \<and> username u = un \<and> email u = em \<and>
          password u = bcrypt_hash e pw 12)) \<and>
     (length un < 3 \<longrightarrow>
       register e b s = (Reply 400 (failure (if pw = []
          then ''Please provide username, email, and password''
          else if length pw < 6 then ''Password must be at least 6 characters long''
          else ''Username must be at least 3 characters long'')), s))"
proof (intro conjI impI)
  assume "length pw < 6"
  with assms show "register e b s = (Reply 400 (failure (if pw = []
          then ''Please provide username, email, and password''
          else ''Password must be at least 6 characters long'')), s)"
    by (simp add: register_def falsy_def)
next
  assume h: "6 \<le> length pw \<and> 3 \<le> length un \<and> findOne_or un em s = None"
  let ?u = "\<lparr>uid = user_id e, username = un, email = em, password = bcrypt_hash e pw 12,
      user_createdAt = user_now e, user_updatedAt = user_now e\<rparr>"
  have "register e b s =
     (Reply 201 (JObject [(''success'', JBoolean True),
        (''message'', JText (str ''User registered successfully'')),
        (''user'', public_view ?u)]), s @ [?u])"
    using register_created [OF assms(1,3,4,5)] h by simp
  then show "\<exists>u. register e b s =
          (Reply 201 (JObject [(''success'', JBoolean True),
             (''message'', JText (str ''User registered successfully'')),
             (''user'', public_view u)]), s @ [u]) \<and>
          uid u = user_id e \<and> username u = un \<and> email u = em \<and>
          password u = bcrypt_hash e pw 12"
    by (intro exI [of _ ?u]) simp
next
  assume "length un < 3"
  with assms show "register e b s = (Reply 400 (failure (if pw = []
          then ''Please provide username, email, and password''
          else if length pw < 6 then ''Password must be at least 6 characters long''
          else ''Username must be at least 3 characters long'')), s)"
    by (simp add: register_def falsy_def)
qed

theorem register_length_boundaries_witness:
  "(\<exists>m. register uenv0 (reg_body ''bob'' ''bob@example.org'' ''12345'') [alice] =
      (Reply 400 (failure m), [alice])) \<and>
   (\<exists>u. fst (register uenv0 (reg_body ''bob'' ''bob@example.org'' ''123456'') [alice]) =
      Reply 201 (JObject [(''success'', JBoolean True),
        (''message'', JText (str ''User registered successfully'')),
        (''user'', public_view u)]) \<and>
      snd (register uenv0 (reg_body ''bob'' ''bob@example.org'' ''123456'') [alice]) = [alice, u] \<and>
      username u = str ''bob'') \<and>
   (\<exists>m. register uenv0 (reg_body ''bo'' ''bob@example.org'' ''123456'') [alice] =
      (Reply 400 (failure m), [alice]))"
proof -
  have none: "findOne_or (str ''bob'') (str ''bob@example.org'') [alice] = None"
    by (simp add: findOne_or_def alice_def str_def)
  have len: "length (str ''12345'') < 6" "6 \<le> length (str ''123456'')" "3 \<le> length (str ''bob'')"
    "length (str ''bo'') < 3"
    by (simp_all add: str_def)
  have ne: "str ''bob'' \<noteq> []" "str ''bo'' \<noteq> []" "str ''bob@example.org'' \<noteq> []"
    by (simp_all add: str_def)
  have f: "reg_username (reg_body u m p) = Some (str u)" "reg_email (reg_body u m p) = Some (str m)"
    "reg_password (reg_body u m p) = Some (str p)" for u m p
    by (simp_all add: reg_body_def)
  from register_length_boundaries [OF f(1) ne(1) f(2) ne(3) f(3), of "''12345''" uenv0 "[alice]"] len
  have 1: "\<exists>m. register uenv0 (reg_body ''bob'' ''bob@example.org'' ''12345'') [alice] =
      (Reply 400 (failure m), [alice])"
    by blast
  from register_length_boundaries [OF f(1) ne(1) f(2) ne(3) f(3), of "''123456''" uenv0 "[alice]"]
    len none
  obtain u where "register uenv0 (reg_body ''bob'' ''bob@example.org'' ''123456'') [alice] =
          (Reply 201 (JObject [(''success'', JBoolean True),
             (''message'', JText (str ''User registered successfully'')),
             (''user'', public_view u)]), [alice] @ [u])" "username u = str ''bob''"
    by blast
  then have 2: "\<exists>u. fst (register uenv0 (reg_body ''bob'' ''bob@example.org'' ''123456'') [alice]) =
      Reply 201 (JObject [(''success'', JBoolean True),
        (''message'', JText (str ''User registered successfully'')),
        (''user'', public_view u)]) \<and>
      snd (register uenv0 (reg_body ''bob'' ''bob@example.org'' ''123456'') [alice]) = [alice, u] \<and>
      username u = str ''bob''"
    by (intro exI [of _ u]) simp
  from register_length_boundaries [OF f(1) ne(2) f(2) ne(3) f(3), of "''123456''" uenv0 "[alice]"] len
  have 3: "\<exists>m. register uenv0 (reg_body ''bo'' ''bob@example.org'' ''123456'') [alice] =
      (Reply 400 (failure m), [alice])"
    by blast
  from 1 2 3 show ?thesis by blast
qed











end
